theory Spec2Isabelle
  imports Main "HOL-Library.Sublist" "HOL-Library.Multiset" "HOL-Library.Word"
begin

section \<open>Data model\<close>

text \<open>
  The table of \<^verbatim>\<open>server/database.js\<close>:
  \<^verbatim>\<open>
  CREATE TABLE IF NOT EXISTS books (
    id INTEGER PRIMARY KEY AUTOINCREMENT,
    title TEXT NOT NULL, author TEXT NOT NULL, isbn TEXT UNIQUE,
    published_year INTEGER, genre TEXT, description TEXT,
    created_at DATETIME DEFAULT CURRENT_TIMESTAMP,
    updated_at DATETIME DEFAULT CURRENT_TIMESTAMP)
  \<close>
  A column value is \<open>None\<close> for SQL NULL. The object \<open>bookData\<close> that the handlers
  build and the data-access functions destructure has the six business fields; a field
  that is \<open>undefined\<close> or \<open>null\<close> in JavaScript is \<open>None\<close> (both are bound as NULL).
  Values are taken at the types of the columns: text fields are strings and
  \<open>published_year\<close> is an integer. A timestamp is a value of \<open>CURRENT_TIMESTAMP\<close>, the
  text \<open>YYYY-MM-DD HH:MM:SS\<close>, whose order as text is the order of time; it is kept as
  the number of whole seconds that it denotes.
\<close>

type_synonym timestamp = nat

record bookData =
  title :: "string option"
  author :: "string option"
  isbn :: "string option"
  published_year :: "int option"
  genre :: "string option"
  description :: "string option"

record book = bookData +
  book_id :: int
  created_at :: timestamp
  updated_at :: timestamp

text \<open>
  The store: the rows of the table in the order of their rowid, the counter that
  \<open>AUTOINCREMENT\<close> keeps of the largest id ever given out, and the engine's reading of
  a text that is compared with the integer column \<open>id\<close>: the integer that the text is
  equal to, if there is one. Nothing below depends on what this reading is; no statement
  changes it.
\<close>

record database =
  rows :: "book list"
  seq :: int
  numeric :: "string \<Rightarrow> int option"

text \<open>
  An id reaches the data-access layer as a JavaScript value: the handlers pass the path
  segment \<open>req.params.id\<close>, a string; a caller holding a record passes its numeric
  \<open>id\<close>.
\<close>

datatype jsid = IdNum int | IdText string

text \<open>
  What one call of a data-access function or of a handler receives from outside: the
  time at which it runs, in milliseconds, and for its first and its second statement the
  fault of the store (disk, lock, closed handle), if any, as the message of the error
  that the driver passes to the callback.
\<close>

record env =
  now :: nat
  fault1 :: "string option"
  fault2 :: "string option"

text \<open>\<open>CURRENT_TIMESTAMP\<close>: the time of the statement, cut to whole seconds.\<close>

definition current_timestamp :: "env \<Rightarrow> timestamp" where
  "current_timestamp e = now e div 1000"

section \<open>The store's statements\<close>

text \<open>
  The five SQL statements that \<^verbatim>\<open>server/database.js\<close> sends, as functions on the
  table. In \<open>WHERE id = ?\<close> the column is an integer: a bound number is compared as it
  is, a bound text is compared as the integer that the engine reads it as, and a text
  that it reads as none equals no id.
\<close>

fun id_key :: "(string \<Rightarrow> int option) \<Rightarrow> jsid \<Rightarrow> int option" where
  "id_key num (IdNum n) = Some n"
| "id_key num (IdText s) = num s"

definition id_matches :: "(string \<Rightarrow> int option) \<Rightarrow> jsid \<Rightarrow> book \<Rightarrow> bool" where
  "id_matches num i r = (id_key num i = Some (book_id r))"

text \<open>
  How the engine reads a text that meets a column of integers (numeric affinity), as
  \<open>sqlite3AtoF\<close> does: blanks around it are skipped; then come an optional sign, digits,
  an optional point with digits, and an optional exponent \<open>e\<close> with an optional sign and
  at least one digit; there must be a digit before the exponent and nothing else in the
  text. A text of this form is read as an integer when its value is a whole number of
  64 bits, and as a REAL otherwise; any other text stays a text. The value is computed
  exactly here; the engine computes the value of a text with a point or an exponent in
  floating point, which gives the same for texts of at most 15 significant digits.
\<close>

datatype reading = ReadsInt int | ReadsReal | ReadsText

definition is_digit :: "char \<Rightarrow> bool" where
  "is_digit c = (c \<in> set ''0123456789'')"

definition digit_val :: "char \<Rightarrow> nat" where
  "digit_val c = of_char c - 48"

definition nat_of_digits :: "string \<Rightarrow> nat" where
  "nat_of_digits cs = foldl (\<lambda>n c. 10 * n + digit_val c) 0 cs"

definition is_space :: "char \<Rightarrow> bool" where
  "is_space c = (c \<in> set [CHR '' '', CHR 0x09, CHR 0x0A, CHR 0x0B, CHR 0x0C, CHR 0x0D])"

definition trim :: "string \<Rightarrow> string" where
  "trim s = rev (dropWhile is_space (rev (dropWhile is_space s)))"

definition split_sign :: "string \<Rightarrow> int \<times> string" where
  "split_sign s =
     (case s of
        [] \<Rightarrow> (1, [])
      | c # cs \<Rightarrow>
          if c = CHR ''-'' then (- 1, cs) else if c = CHR ''+'' then (1, cs) else (1, s))"

definition in_int64 :: "int \<Rightarrow> bool" where
  "in_int64 n = (- (2 ^ 63) \<le> n \<and> n < 2 ^ 63)"

definition text_reading :: "string \<Rightarrow> reading" where
  "text_reading s =
     (let (sgn, s1) = split_sign (trim s);
          ip = takeWhile is_digit s1; s2 = dropWhile is_digit s1;
          dot = (s2 \<noteq> [] \<and> hd s2 = CHR ''.'');
          fp = (if dot then takeWhile is_digit (tl s2) else []);
          s3 = (if dot then dropWhile is_digit (tl s2) else s2);
          ex = (s3 \<noteq> [] \<and> (hd s3 = CHR ''e'' \<or> hd s3 = CHR ''E''));
          (esgn, s4) = (if ex then split_sign (tl s3) else (1, s3));
          ed = takeWhile is_digit s4; s5 = dropWhile is_digit s4
      in if ip @ fp = [] \<or> s5 \<noteq> [] \<or> (ex \<and> ed = []) then ReadsText
         else if \<not> dot \<and> \<not> ex then
           (let n = sgn * int (nat_of_digits ip) in if in_int64 n then ReadsInt n else ReadsReal)
         else
           (let m = nat_of_digits (ip @ fp);
                k = esgn * int (nat_of_digits ed) - int (length fp)
            in if 0 \<le> k then
                 (let n = sgn * int (m * 10 ^ nat k)
                  in if in_int64 n \<and> n \<noteq> - (2 ^ 63) then ReadsInt n else ReadsReal)
               else if m mod 10 ^ nat (- k) = 0 then
                 (let n = sgn * int (m div 10 ^ nat (- k))
                  in if in_int64 n \<and> n \<noteq> - (2 ^ 63) then ReadsInt n else ReadsReal)
               else ReadsReal))"

text \<open>The integer, if any, that a text compared with the column \<open>id\<close> is equal to, and
  the empty table of the examples.\<close>

definition int_of_text :: "string \<Rightarrow> int option" where
  "int_of_text s = (case text_reading s of ReadsInt n \<Rightarrow> Some n | _ \<Rightarrow> None)"

definition empty_db :: database where
  "empty_db = \<lparr>rows = [], seq = 0, numeric = int_of_text\<rparr>"

text \<open>\<^verbatim>\<open>SELECT * FROM books ORDER BY created_at DESC\<close>. SQL leaves open the order
  of rows with equal \<open>created_at\<close>; the engine sorts the rows of the table scan with a
  stable sort, so such rows stay in the order of the table.\<close>

definition sql_select_all :: "database \<Rightarrow> book list" where
  "sql_select_all db = sort_key (\<lambda>r. - int (created_at r)) (rows db)"

text \<open>\<^verbatim>\<open>SELECT * FROM books WHERE id = ?\<close>, read with \<open>db.get\<close>: the first row, if any.\<close>

definition sql_select_by_id :: "database \<Rightarrow> jsid \<Rightarrow> book option" where
  "sql_select_by_id db i = find (id_matches (numeric db) i) (rows db)"

text \<open>\<^verbatim>\<open>INSERT INTO books (title, author, isbn, published_year, genre, description)
  VALUES (?, ?, ?, ?, ?, ?)\<close>: the store checks NOT NULL, then UNIQUE (NULL never
  clashes), gives the row the next id and \<open>CURRENT_TIMESTAMP\<close> for both timestamps, and
  reports the id as \<open>lastID\<close>.\<close>

definition sql_insert :: "timestamp \<Rightarrow> database \<Rightarrow> bookData \<Rightarrow> string + database \<times> int" where
  "sql_insert t db d =
     (if title d = None then Inl ''SQLITE_CONSTRAINT: NOT NULL constraint failed: books.title''
      else if author d = None then Inl ''SQLITE_CONSTRAINT: NOT NULL constraint failed: books.author''
      else if isbn d \<noteq> None \<and> (\<exists>r \<in> set (rows db). isbn r = isbn d)
        then Inl ''SQLITE_CONSTRAINT: UNIQUE constraint failed: books.isbn''
      else
        let lastID = seq db + 1;
            r = \<lparr>title = title d, author = author d, isbn = isbn d,
                 published_year = published_year d, genre = genre d,
                 description = description d,
                 book_id = lastID, created_at = t, updated_at = t\<rparr>
        in Inr (db\<lparr>rows := rows db @ [r], seq := lastID\<rparr>, lastID))"

text \<open>\<^verbatim>\<open>UPDATE books SET title = ?, author = ?, isbn = ?, published_year = ?, genre = ?,
  description = ?, updated_at = CURRENT_TIMESTAMP WHERE id = ?\<close>: with no row to change
  nothing is checked and \<open>changes\<close> is 0; otherwise the constraints are checked against
  the other rows.\<close>

definition set_fields :: "timestamp \<Rightarrow> bookData \<Rightarrow> book \<Rightarrow> book" where
  "set_fields t d r =
     r\<lparr>title := title d, author := author d, isbn := isbn d,
       published_year := published_year d, genre := genre d,
       description := description d, updated_at := t\<rparr>"

definition sql_update :: "timestamp \<Rightarrow> database \<Rightarrow> bookData \<Rightarrow> jsid \<Rightarrow> string + database \<times> nat" where
  "sql_update t db d i =
     (let hits = filter (id_matches (numeric db) i) (rows db) in
      if hits = [] then Inr (db, 0)
      else if title d = None then Inl ''SQLITE_CONSTRAINT: NOT NULL constraint failed: books.title''
      else if author d = None then Inl ''SQLITE_CONSTRAINT: NOT NULL constraint failed: books.author''
      else if isbn d \<noteq> None \<and>
              ((\<exists>r \<in> set (rows db). \<not> id_matches (numeric db) i r \<and> isbn r = isbn d) \<or> 1 < length hits)
        then Inl ''SQLITE_CONSTRAINT: UNIQUE constraint failed: books.isbn''
      else Inr (db\<lparr>rows := map (\<lambda>r. if id_matches (numeric db) i r then set_fields t d r else r) (rows db)\<rparr>,
                length hits))"

text \<open>\<^verbatim>\<open>DELETE FROM books WHERE id = ?\<close>.\<close>

definition sql_delete :: "database \<Rightarrow> jsid \<Rightarrow> database" where
  "sql_delete db i = db\<lparr>rows := filter (\<lambda>r. \<not> id_matches (numeric db) i r) (rows db)\<rparr>"

text \<open>The calls of the driver: a statement either fails with the fault of the store and
  changes nothing, or runs.\<close>

definition db_all :: "string option \<Rightarrow> database \<Rightarrow> string + book list" where
  "db_all fault db = (case fault of Some err \<Rightarrow> Inl err | None \<Rightarrow> Inr (sql_select_all db))"

definition db_get :: "string option \<Rightarrow> database \<Rightarrow> jsid \<Rightarrow> string + book option" where
  "db_get fault db i = (case fault of Some err \<Rightarrow> Inl err | None \<Rightarrow> Inr (sql_select_by_id db i))"

definition db_run_insert :: "string option \<Rightarrow> timestamp \<Rightarrow> database \<Rightarrow> bookData \<Rightarrow> string + database \<times> int" where
  "db_run_insert fault t db d = (case fault of Some err \<Rightarrow> Inl err | None \<Rightarrow> sql_insert t db d)"

definition db_run_update :: "string option \<Rightarrow> timestamp \<Rightarrow> database \<Rightarrow> bookData \<Rightarrow> jsid \<Rightarrow> string + database \<times> nat" where
  "db_run_update fault t db d i = (case fault of Some err \<Rightarrow> Inl err | None \<Rightarrow> sql_update t db d i)"

definition db_run_delete :: "string option \<Rightarrow> database \<Rightarrow> jsid \<Rightarrow> string + database" where
  "db_run_delete fault db i = (case fault of Some err \<Rightarrow> Inl err | None \<Rightarrow> Inr (sql_delete db i))"

section \<open>Data-access layer: dbOperations\<close>

text \<open>
  Each function of \<open>dbOperations\<close> returns a promise: \<open>Inl\<close> of the error's message
  when it rejects, \<open>Inr\<close> of the value when it resolves (\<open>None\<close> for \<open>undefined\<close> and
  \<open>null\<close>). The functions that write return the table as they leave it, also when they
  reject. A call runs its statements one after the other with no other call in between;
  interleavings of concurrent requests are not part of this development.
\<close>

definition getAllBooks :: "env \<Rightarrow> database \<Rightarrow> string + book list" where
  "getAllBooks e db = db_all (fault1 e) db"

definition getBookById :: "env \<Rightarrow> database \<Rightarrow> jsid \<Rightarrow> string + book option" where
  "getBookById e db i = db_get (fault1 e) db i"

definition createBook :: "env \<Rightarrow> database \<Rightarrow> bookData \<Rightarrow> (string + book option) \<times> database" where
  "createBook e db d =
     (case db_run_insert (fault1 e) (current_timestamp e) db d of
        Inl err \<Rightarrow> (Inl err, db)
      | Inr (db', lastID) \<Rightarrow>
          (case db_get (fault2 e) db' (IdNum lastID) of
             Inl err \<Rightarrow> (Inl err, db')
           | Inr row \<Rightarrow> (Inr row, db')))"

definition updateBook :: "env \<Rightarrow> database \<Rightarrow> jsid \<Rightarrow> bookData \<Rightarrow> (string + book option) \<times> database" where
  "updateBook e db i d =
     (case db_run_update (fault1 e) (current_timestamp e) db d i of
        Inl err \<Rightarrow> (Inl err, db)
      | Inr (db', changes) \<Rightarrow>
          if changes = 0 then (Inr None, db')
          else
            (case db_get (fault2 e) db' i of
               Inl err \<Rightarrow> (Inl err, db')
             | Inr row \<Rightarrow> (Inr row, db')))"

definition deleteBook :: "env \<Rightarrow> database \<Rightarrow> jsid \<Rightarrow> (string + book option) \<times> database" where
  "deleteBook e db i =
     (case db_get (fault1 e) db i of
        Inl err \<Rightarrow> (Inl err, db)
      | Inr None \<Rightarrow> (Inr None, db)
      | Inr (Some b) \<Rightarrow>
          (case db_run_delete (fault2 e) db i of
             Inl err \<Rightarrow> (Inl err, db)
           | Inr db' \<Rightarrow> (Inr (Some b), db')))"

section \<open>Request handlers\<close>

text \<open>
  A request carries the path segment \<open>:id\<close> and the parsed JSON body. The handlers
  destructure six fields out of the body; whatever else the client put there is in
  \<open>other_fields\<close>.
\<close>

datatype json = JNull | JBool bool | JNum int | JStr string

record body = bookData +
  other_fields :: "string \<rightharpoonup> json"

record request =
  params_id :: string
  body :: body

text \<open>The envelope \<open>{success, message?, data?, total?, error?}\<close> with its status code;
  a key that the handler does not write is \<open>None\<close>.\<close>

datatype payload = Books "book list" | Book book | DeletedBook book

record response =
  status :: nat
  success :: bool
  message :: "string option"
  data :: "payload option"
  total_field :: "nat option"
  error :: "string option"

text \<open>\<open>!title\<close>: a string is falsy when it is \<open>undefined\<close>, \<open>null\<close> or empty.\<close>

definition truthy :: "string option \<Rightarrow> bool" where
  "truthy v = (v \<noteq> None \<and> v \<noteq> Some [])"

text \<open>\<open>String.prototype.includes\<close>.\<close>

fun includes_str :: "string \<Rightarrow> string \<Rightarrow> bool" where
  "includes_str [] sub = (sub = [])"
| "includes_str (c # cs) sub = (prefix sub (c # cs) \<or> includes_str cs sub)"

text \<open>\<^verbatim>\<open>const { title, author, isbn, published_year, genre, description } = req.body\<close>
  and the object literal \<open>{title, author, isbn, published_year, genre, description}\<close>
  that is handed to the data-access layer.\<close>

definition pick_fields :: "body \<Rightarrow> bookData" where
  "pick_fields b =
     \<lparr>title = title b, author = author b, isbn = isbn b,
      published_year = published_year b, genre = genre b,
      description = description b\<rparr>"

definition failure :: "nat \<Rightarrow> string \<Rightarrow> string option \<Rightarrow> response" where
  "failure code msg err =
     \<lparr>status = code, success = False, message = Some msg, data = None,
      total_field = None, error = err\<rparr>"

text \<open>\<^verbatim>\<open>router.get('/')\<close>\<close>

definition get_books :: "env \<Rightarrow> database \<Rightarrow> response" where
  "get_books e db =
     (case getAllBooks e db of
        Inr books \<Rightarrow>
          \<lparr>status = 200, success = True, message = None, data = Some (Books books),
           total_field = Some (length books), error = None\<rparr>
      | Inl err \<Rightarrow> failure 500 ''Error retrieving books'' (Some err))"

text \<open>\<^verbatim>\<open>router.get('/:id')\<close>\<close>

definition get_book :: "env \<Rightarrow> database \<Rightarrow> request \<Rightarrow> response" where
  "get_book e db req =
     (case getBookById e db (IdText (params_id req)) of
        Inr None \<Rightarrow> failure 404 ''Book not found'' None
      | Inr (Some b) \<Rightarrow>
          \<lparr>status = 200, success = True, message = None, data = Some (Book b),
           total_field = None, error = None\<rparr>
      | Inl err \<Rightarrow> failure 500 ''Error retrieving book'' (Some err))"

text \<open>\<^verbatim>\<open>router.post('/')\<close>\<close>

definition post_book :: "env \<Rightarrow> database \<Rightarrow> request \<Rightarrow> response \<times> database" where
  "post_book e db req =
     (let b = body req in
      if \<not> truthy (title b) \<or> \<not> truthy (author b)
      then (failure 400 ''Title and author are required'' None, db)
      else
        (case createBook e db (pick_fields b) of
           (Inr newBook, db') \<Rightarrow>
             (\<lparr>status = 201, success = True, message = Some ''Book created successfully'',
               data = map_option Book newBook, total_field = None, error = None\<rparr>, db')
         | (Inl err, db') \<Rightarrow>
             (if includes_str err ''UNIQUE constraint failed''
              then failure 400 ''ISBN already exists'' None
              else failure 500 ''Error creating book'' (Some err), db')))"

text \<open>\<^verbatim>\<open>router.put('/:id')\<close>\<close>

definition put_book :: "env \<Rightarrow> database \<Rightarrow> request \<Rightarrow> response \<times> database" where
  "put_book e db req =
     (let b = body req in
      if \<not> truthy (title b) \<or> \<not> truthy (author b)
      then (failure 400 ''Title and author are required'' None, db)
      else
        (case updateBook e db (IdText (params_id req)) (pick_fields b) of
           (Inr None, db') \<Rightarrow> (failure 404 ''Book not found'' None, db')
         | (Inr (Some updatedBook), db') \<Rightarrow>
             (\<lparr>status = 200, success = True, message = Some ''Book updated successfully'',
               data = Some (Book updatedBook), total_field = None, error = None\<rparr>, db')
         | (Inl err, db') \<Rightarrow>
             (if includes_str err ''UNIQUE constraint failed''
              then failure 400 ''ISBN already exists'' None
              else failure 500 ''Error updating book'' (Some err), db')))"

text \<open>\<^verbatim>\<open>router.delete('/:id')\<close>\<close>

definition delete_book :: "env \<Rightarrow> database \<Rightarrow> request \<Rightarrow> response \<times> database" where
  "delete_book e db req =
     (case deleteBook e db (IdText (params_id req)) of
        (Inr None, db') \<Rightarrow> (failure 404 ''Book not found'' None, db')
      | (Inr (Some deletedBook), db') \<Rightarrow>
          (\<lparr>status = 200, success = True, message = Some ''Book deleted successfully'',
            data = Some (DeletedBook deletedBook), total_field = None, error = None\<rparr>, db')
      | (Inl err, db') \<Rightarrow> (failure 500 ''Error deleting book'' (Some err), db'))"

section \<open>Values of other JSON types\<close>

text \<open>
  \<open>createBook\<close> binds whatever values the object \<open>bookData\<close> carries, and the columns
  make of them what their type affinity says. This section has \<open>createBook\<close> and
  \<open>getBookById\<close> on the values as JavaScript carries them; on values of the column types
  they do what the functions above do. A value is \<open>undefined\<close> (\<open>None\<close>), \<open>null\<close>, a
  boolean, a string, or a number that the driver binds as INTEGER, which is an integer of
  32 bits. Other numbers are bound as REAL, a floating-point value; they, arrays and
  objects are not part of this development.
\<close>

datatype jsval = JsNull | JsBool bool | JsNum "32 word" | JsStr string

record bookValues =
  v_title :: "jsval option"
  v_author :: "jsval option"
  v_isbn :: "jsval option"
  v_published_year :: "jsval option"
  v_genre :: "jsval option"
  v_description :: "jsval option"

text \<open>\<open>!x\<close> on such a value.\<close>

definition truthy_js :: "jsval option \<Rightarrow> bool" where
  "truthy_js v =
     (case v of
        None \<Rightarrow> False
      | Some JsNull \<Rightarrow> False
      | Some (JsBool b) \<Rightarrow> b
      | Some (JsNum n) \<Rightarrow> n \<noteq> 0
      | Some (JsStr s) \<Rightarrow> s \<noteq> [])"

text \<open>
  What the column \<open>published_year INTEGER\<close> can hold besides NULL: an integer, a REAL
  (given by the text it was read from), or a text that reads as no number. The five
  \<open>TEXT\<close> columns hold texts.
\<close>

datatype yearval = YInt int | YReal string | YText string

record stored_book =
  s_title :: "string option"
  s_author :: "string option"
  s_isbn :: "string option"
  s_published_year :: "yearval option"
  s_genre :: "string option"
  s_description :: "string option"
  s_id :: int
  s_created_at :: timestamp
  s_updated_at :: timestamp

text \<open>The table with such rows, the counter, and the engine's reading of a text that
  meets the column of integers.\<close>

record store =
  s_rows :: "stored_book list"
  s_seq :: int
  s_reading :: "string \<Rightarrow> reading"

text \<open>An integer as the engine writes it when a column of texts receives it.\<close>

definition digit_char :: "nat \<Rightarrow> char" where
  "digit_char n = ''0123456789'' ! n"

fun dec_nat :: "nat \<Rightarrow> string" where
  "dec_nat n =
     (if n < 10 then [digit_char n] else dec_nat (n div 10) @ [digit_char (n mod 10)])"

definition decimal :: "int \<Rightarrow> string" where
  "decimal i = (if i < 0 then CHR ''-'' # dec_nat (nat (- i)) else dec_nat (nat i))"

text \<open>
  Binding and affinity. The driver binds \<open>undefined\<close> and \<open>null\<close> as NULL, a boolean
  as the integer 1 or 0, a number as INTEGER and a string as TEXT. A \<open>TEXT\<close> column turns
  an integer into its decimal text; the \<open>INTEGER\<close> column turns a text into the number
  it reads as, and keeps a text that reads as none.
\<close>

definition text_affinity :: "jsval option \<Rightarrow> string option" where
  "text_affinity v =
     (case v of
        None \<Rightarrow> None
      | Some JsNull \<Rightarrow> None
      | Some (JsBool b) \<Rightarrow> Some (if b then ''1'' else ''0'')
      | Some (JsNum n) \<Rightarrow> Some (decimal (sint n))
      | Some (JsStr s) \<Rightarrow> Some s)"

definition integer_affinity :: "(string \<Rightarrow> reading) \<Rightarrow> jsval option \<Rightarrow> yearval option" where
  "integer_affinity rd v =
     (case v of
        None \<Rightarrow> None
      | Some JsNull \<Rightarrow> None
      | Some (JsBool b) \<Rightarrow> Some (YInt (if b then 1 else 0))
      | Some (JsNum n) \<Rightarrow> Some (YInt (sint n))
      | Some (JsStr s) \<Rightarrow>
          (case rd s of
             ReadsInt i \<Rightarrow> Some (YInt i)
           | ReadsReal \<Rightarrow> Some (YReal s)
           | ReadsText \<Rightarrow> Some (YText s)))"

text \<open>The INSERT of \<open>createBook\<close> and the SELECT by the id that it reports.\<close>

definition sql_insert_js :: "timestamp \<Rightarrow> store \<Rightarrow> bookValues \<Rightarrow> string + store \<times> int" where
  "sql_insert_js t st x =
     (if text_affinity (v_title x) = None
        then Inl ''SQLITE_CONSTRAINT: NOT NULL constraint failed: books.title''
      else if text_affinity (v_author x) = None
        then Inl ''SQLITE_CONSTRAINT: NOT NULL constraint failed: books.author''
      else if text_affinity (v_isbn x) \<noteq> None \<and>
              (\<exists>r \<in> set (s_rows st). s_isbn r = text_affinity (v_isbn x))
        then Inl ''SQLITE_CONSTRAINT: UNIQUE constraint failed: books.isbn''
      else
        let lastID = s_seq st + 1;
            r = \<lparr>s_title = text_affinity (v_title x), s_author = text_affinity (v_author x),
                 s_isbn = text_affinity (v_isbn x),
                 s_published_year = integer_affinity (s_reading st) (v_published_year x),
                 s_genre = text_affinity (v_genre x),
                 s_description = text_affinity (v_description x),
                 s_id = lastID, s_created_at = t, s_updated_at = t\<rparr>
        in Inr (st\<lparr>s_rows := s_rows st @ [r], s_seq := lastID\<rparr>, lastID))"

definition sql_select_js :: "store \<Rightarrow> int \<Rightarrow> stored_book option" where
  "sql_select_js st n = find (\<lambda>r. s_id r = n) (s_rows st)"

definition createBook_js :: "env \<Rightarrow> store \<Rightarrow> bookValues \<Rightarrow> (string + stored_book option) \<times> store" where
  "createBook_js e st x =
     (case fault1 e of
        Some err \<Rightarrow> (Inl err, st)
      | None \<Rightarrow>
          (case sql_insert_js (current_timestamp e) st x of
             Inl err \<Rightarrow> (Inl err, st)
           | Inr (st', lastID) \<Rightarrow>
               (case fault2 e of
                  Some err \<Rightarrow> (Inl err, st')
                | None \<Rightarrow> (Inr (sql_select_js st' lastID), st'))))"

text \<open>\<open>getBookById\<close> on the numeric \<open>id\<close> of a record.\<close>

definition getBookById_js :: "env \<Rightarrow> store \<Rightarrow> int \<Rightarrow> string + stored_book option" where
  "getBookById_js e st n =
     (case fault1 e of Some err \<Rightarrow> Inl err | None \<Rightarrow> Inr (sql_select_js st n))"

text \<open>
  A field of the record that comes back is equal to the field of the input when the
  column holds the very value that was given, NULL standing for a missing field.
\<close>

definition same_text :: "string option \<Rightarrow> jsval option \<Rightarrow> bool" where
  "same_text c v =
     (case c of
        None \<Rightarrow> v = None \<or> v = Some JsNull
      | Some s \<Rightarrow> v = Some (JsStr s))"

definition same_year :: "yearval option \<Rightarrow> jsval option \<Rightarrow> bool" where
  "same_year c v =
     (case c of
        None \<Rightarrow> v = None \<or> v = Some JsNull
      | Some (YInt i) \<Rightarrow> (\<exists>n. v = Some (JsNum n) \<and> sint n = i)
      | Some (YReal s) \<Rightarrow> False
      | Some (YText s) \<Rightarrow> v = Some (JsStr s))"

definition equal_fields :: "stored_book \<Rightarrow> bookValues \<Rightarrow> bool" where
  "equal_fields r x =
     (same_text (s_title r) (v_title x) \<and> same_text (s_author r) (v_author x) \<and>
      same_text (s_isbn r) (v_isbn x) \<and> same_year (s_published_year r) (v_published_year x) \<and>
      same_text (s_genre r) (v_genre x) \<and> same_text (s_description r) (v_description x))"

text \<open>Values of the column types: a string or nothing in the columns of texts, a
  number or nothing in \<open>published_year\<close>.\<close>

definition is_text :: "jsval option \<Rightarrow> bool" where
  "is_text v = (case v of None \<Rightarrow> True | Some JsNull \<Rightarrow> True | Some (JsStr s) \<Rightarrow> True | _ \<Rightarrow> False)"

definition is_number :: "jsval option \<Rightarrow> bool" where
  "is_number v = (case v of None \<Rightarrow> True | Some JsNull \<Rightarrow> True | Some (JsNum n) \<Rightarrow> True | _ \<Rightarrow> False)"

definition column_typed :: "bookValues \<Rightarrow> bool" where
  "column_typed x =
     (is_text (v_title x) \<and> is_text (v_author x) \<and> is_text (v_isbn x) \<and>
      is_number (v_published_year x) \<and> is_text (v_genre x) \<and> is_text (v_description x))"

text \<open>The invariant of the primary key, as \<open>keys_ok\<close> below.\<close>

definition store_ok :: "store \<Rightarrow> bool" where
  "store_ok st =
     (0 \<le> s_seq st \<and> distinct (map s_id (s_rows st)) \<and>
      (\<forall>r \<in> set (s_rows st). 0 < s_id r \<and> s_id r \<le> s_seq st))"

section \<open>Invariant of the table and example data\<close>

text \<open>
  \<open>id INTEGER PRIMARY KEY AUTOINCREMENT\<close>: no two rows share an id, and every id in
  the table was given out by the counter, which starts at 0.
\<close>

definition keys_ok :: "database \<Rightarrow> bool" where
  "keys_ok db =
     (0 \<le> seq db \<and> distinct (map book_id (rows db)) \<and>
      (\<forall>r \<in> set (rows db). 0 < book_id r \<and> book_id r \<le> seq db))"

text \<open>An id that the counter never gave out: a value that the engine reads as no
  integer, or an integer outside \<open>1 .. seq\<close>.\<close>

definition never_created :: "database \<Rightarrow> jsid \<Rightarrow> bool" where
  "never_created db i =
     (case id_key (numeric db) i of None \<Rightarrow> True | Some n \<Rightarrow> n \<le> 0 \<or> seq db < n)"

text \<open>Two of the \<open>sampleBooks\<close> of \<^verbatim>\<open>server/database.js\<close>, a call at time \<open>t\<close>
  (in milliseconds) during which the store answers, and a table holding the first book.\<close>

definition gatsby :: bookData where
  "gatsby =
     \<lparr>title = Some ''The Great Gatsby'', author = Some ''F. Scott Fitzgerald'',
      isbn = Some ''978-0-7432-7356-5'', published_year = Some 1925,
      genre = Some ''Fiction'', description = Some ''A classic American novel''\<rparr>"

definition orwell :: bookData where
  "orwell =
     \<lparr>title = Some ''1984'', author = Some ''George Orwell'',
      isbn = Some ''978-0-452-28423-4'', published_year = Some 1949,
      genre = Some ''Dystopian Fiction'',
      description = Some ''A dystopian social science fiction novel''\<rparr>"

definition quiet :: "timestamp \<Rightarrow> env" where
  "quiet t = \<lparr>now = t, fault1 = None, fault2 = None\<rparr>"

definition one_book_db :: database where
  "one_book_db = snd (createBook (quiet 100000) empty_db gatsby)"

definition gatsby_row :: book where
  "gatsby_row =
     \<lparr>title = Some ''The Great Gatsby'', author = Some ''F. Scott Fitzgerald'',
      isbn = Some ''978-0-7432-7356-5'', published_year = Some 1925,
      genre = Some ''Fiction'', description = Some ''A classic American novel'',
      book_id = 1, created_at = 100, updated_at = 100\<rparr>"

text \<open>The body of the test \<open>should create a book with minimal required fields\<close>.\<close>

definition minimal :: bookData where
  "minimal =
     \<lparr>title = Some ''Minimal Book'', author = Some ''Minimal Author'', isbn = None,
      published_year = None, genre = None, description = None\<rparr>"

definition minimal_row :: book where
  "minimal_row =
     \<lparr>title = Some ''Minimal Book'', author = Some ''Minimal Author'', isbn = None,
      published_year = None, genre = None, description = None,
      book_id = 2, created_at = 200, updated_at = 200\<rparr>"

definition two_book_db :: database where
  "two_book_db = \<lparr>rows = [gatsby_row, minimal_row], seq = 2, numeric = int_of_text\<rparr>"

text \<open>The second row of \<open>two_book_db\<close> after it is overwritten with \<open>orwell\<close> at 300 s.\<close>

definition updated_row :: book where
  "updated_row =
     \<lparr>title = Some ''1984'', author = Some ''George Orwell'',
      isbn = Some ''978-0-452-28423-4'', published_year = Some 1949,
      genre = Some ''Dystopian Fiction'',
      description = Some ''A dystopian social science fiction novel'',
      book_id = 2, created_at = 200, updated_at = 300\<rparr>"

definition orwell_row :: book where
  "orwell_row =
     \<lparr>title = Some ''1984'', author = Some ''George Orwell'',
      isbn = Some ''978-0-452-28423-4'', published_year = Some 1949,
      genre = Some ''Dystopian Fiction'',
      description = Some ''A dystopian social science fiction novel'',
      book_id = 3, created_at = 300, updated_at = 300\<rparr>"

definition three_book_db :: database where
  "three_book_db =
     \<lparr>rows = [gatsby_row, minimal_row, orwell_row], seq = 3, numeric = int_of_text\<rparr>"

text \<open>
  The two books of the test \<open>should return all books in descending order by created_at\<close>,
  and their rows when the first is created at 100.1 s and the second 100 ms later, in
  the same second of the clock.
\<close>

definition first_book :: bookData where
  "first_book =
     \<lparr>title = Some ''First Book'', author = Some ''Author 1'', isbn = None,
      published_year = None, genre = None, description = None\<rparr>"

definition second_book :: bookData where
  "second_book =
     \<lparr>title = Some ''Second Book'', author = Some ''Author 2'', isbn = None,
      published_year = None, genre = None, description = None\<rparr>"

definition first_row :: book where
  "first_row =
     \<lparr>title = Some ''First Book'', author = Some ''Author 1'', isbn = None,
      published_year = None, genre = None, description = None,
      book_id = 1, created_at = 100, updated_at = 100\<rparr>"

definition second_row :: book where
  "second_row =
     \<lparr>title = Some ''Second Book'', author = Some ''Author 2'', isbn = None,
      published_year = None, genre = None, description = None,
      book_id = 2, created_at = 100, updated_at = 100\<rparr>"

definition first_db :: database where
  "first_db = \<lparr>rows = [first_row], seq = 1, numeric = int_of_text\<rparr>"

definition both_db :: database where
  "both_db = \<lparr>rows = [first_row, second_row], seq = 2, numeric = int_of_text\<rparr>"

text \<open>A call during which the store is out of order.\<close>

definition broken :: env where
  "broken = \<lparr>now = 200000, fault1 = Some ''SQLITE_IOERR: disk I/O error'', fault2 = None\<rparr>"

definition request_of :: "string \<Rightarrow> bookData \<Rightarrow> request" where
  "request_of i d =
     \<lparr>params_id = i,
      body = \<lparr>title = title d, author = author d, isbn = isbn d,
              published_year = published_year d, genre = genre d,
              description = description d, other_fields = Map.empty\<rparr>\<rparr>"

text \<open>The same request with an \<open>id\<close> and timestamps of the client's own in the body.\<close>

definition meddling_request_of :: "string \<Rightarrow> bookData \<Rightarrow> request" where
  "meddling_request_of i d =
     \<lparr>params_id = i,
      body = \<lparr>title = title d, author = author d, isbn = isbn d,
              published_year = published_year d, genre = genre d,
              description = description d,
              other_fields = [''id'' \<mapsto> JNum 999,
                              ''created_at'' \<mapsto> JStr ''1999-01-01 00:00:00'',
                              ''updated_at'' \<mapsto> JStr ''1999-01-01 00:00:00'']\<rparr>\<rparr>"

text \<open>
  Values as a form sends them, with the year typed into a text field, a number as title
  and as ISBN; the row that the table holds of them; and the same book with values of
  the column types.
\<close>

definition empty_store :: store where
  "empty_store = \<lparr>s_rows = [], s_seq = 0, s_reading = text_reading\<rparr>"

definition form_values :: bookValues where
  "form_values =
     \<lparr>v_title = Some (JsNum 5), v_author = Some (JsStr ''F. Scott Fitzgerald''),
      v_isbn = Some (JsNum 12), v_published_year = Some (JsStr ''1925''),
      v_genre = Some (JsStr ''Fiction''), v_description = None\<rparr>"

definition form_row :: stored_book where
  "form_row =
     \<lparr>s_title = Some ''5'', s_author = Some ''F. Scott Fitzgerald'', s_isbn = Some ''12'',
      s_published_year = Some (YInt 1925), s_genre = Some ''Fiction'', s_description = None,
      s_id = 1, s_created_at = 100, s_updated_at = 100\<rparr>"

definition form_store :: store where
  "form_store = \<lparr>s_rows = [form_row], s_seq = 1, s_reading = text_reading\<rparr>"

definition typed_values :: bookValues where
  "typed_values =
     \<lparr>v_title = Some (JsStr ''The Great Gatsby''), v_author = Some (JsStr ''F. Scott Fitzgerald''),
      v_isbn = Some (JsStr ''978-0-7432-7356-5''), v_published_year = Some (JsNum 1925),
      v_genre = Some JsNull, v_description = None\<rparr>"

definition typed_row :: stored_book where
  "typed_row =
     \<lparr>s_title = Some ''The Great Gatsby'', s_author = Some ''F. Scott Fitzgerald'',
      s_isbn = Some ''978-0-7432-7356-5'', s_published_year = Some (YInt 1925),
      s_genre = None, s_description = None,
      s_id = 2, s_created_at = 200, s_updated_at = 200\<rparr>"

definition typed_store :: store where
  "typed_store = \<lparr>s_rows = [form_row, typed_row], s_seq = 2, s_reading = text_reading\<rparr>"

section \<open>Evaluating the examples\<close>

lemma int_of_text_examples:
  "int_of_text ''1'' = Some 1" "int_of_text ''2'' = Some 2" "int_of_text ''99999'' = Some 99999"
  "int_of_text ''invalid-id'' = None" "int_of_text ''1.0'' = Some 1"
  "int_of_text '' 1'' = Some 1" "int_of_text ''1e0'' = Some 1" "int_of_text ''1.5'' = None"
  by (simp_all add: int_of_text_def text_reading_def trim_def split_sign_def is_space_def
      is_digit_def nat_of_digits_def digit_val_def in_int64_def Let_def)

lemma one_book_db_eq: "one_book_db = \<lparr>rows = [gatsby_row], seq = 1, numeric = int_of_text\<rparr>"
  by (simp add: one_book_db_def createBook_def db_run_insert_def db_get_def sql_insert_def
      sql_select_by_id_def id_matches_def quiet_def current_timestamp_def empty_db_def gatsby_def gatsby_row_def
      Let_def)

lemma isbn_gatsby_row [simp]: "isbn gatsby_row = Some ''978-0-7432-7356-5''"
  by (simp add: gatsby_row_def)

lemma book_id_gatsby_row [simp]: "book_id gatsby_row = 1"
  by (simp add: gatsby_row_def)

lemma keys_ok_one_book_db: "keys_ok one_book_db"
  by (simp add: one_book_db_eq keys_ok_def)

lemma create_minimal:
  "createBook (quiet 200000) one_book_db minimal =
     (Inr (Some minimal_row), \<lparr>rows = [gatsby_row, minimal_row], seq = 2, numeric = int_of_text\<rparr>)"
  by (simp add: one_book_db_eq createBook_def db_run_insert_def db_get_def sql_insert_def
      sql_select_by_id_def id_matches_def quiet_def current_timestamp_def minimal_def minimal_row_def Let_def)

lemma keys_ok_two_book_db: "keys_ok two_book_db"
  by (simp add: two_book_db_def keys_ok_def gatsby_row_def minimal_row_def)

lemma update_second_row:
  "updateBook (quiet 300000) two_book_db (IdText ''2'') orwell =
     (Inr (Some updated_row), \<lparr>rows = [gatsby_row, updated_row], seq = 2, numeric = int_of_text\<rparr>)"
  by (simp add: two_book_db_def updateBook_def db_run_update_def db_get_def sql_update_def
      sql_select_by_id_def id_matches_def int_of_text_examples quiet_def current_timestamp_def orwell_def
      gatsby_row_def minimal_row_def updated_row_def set_fields_def Let_def)

lemma create_orwell:
  "createBook (quiet 300000) two_book_db orwell = (Inr (Some orwell_row), three_book_db)"
  by (simp add: two_book_db_def three_book_db_def createBook_def db_run_insert_def db_get_def
      sql_insert_def sql_select_by_id_def id_matches_def quiet_def current_timestamp_def orwell_def orwell_row_def
      gatsby_row_def minimal_row_def Let_def)

lemma pick_fields_request_of [simp]: "pick_fields (body (request_of i d)) = d"
  by (simp add: pick_fields_def request_of_def)

lemma includes_unique_message:
  "includes_str ''SQLITE_CONSTRAINT: UNIQUE constraint failed: books.isbn''
     ''UNIQUE constraint failed''"
  by simp

lemma includes_str_sublist: "includes_str s sub \<longleftrightarrow> sublist sub s"
  by (induction s) (simp_all add: sublist_Cons_right)

lemma duplicate_isbn_classified:
  assumes "truthy (title (body req))" and "truthy (author (body req))"
    and "fault1 e = None" and "isbn (body req) = Some x"
    and "\<exists>r \<in> set (rows db). isbn r = Some x"
  shows "post_book e db req = (failure 400 ''ISBN already exists'' None, db)"
proof -
  have "sql_insert (current_timestamp e) db (pick_fields (body req)) =
      Inl ''SQLITE_CONSTRAINT: UNIQUE constraint failed: books.isbn''"
    using assms(1,2,4,5) by (auto simp: sql_insert_def pick_fields_def truthy_def)
  then have "createBook e db (pick_fields (body req)) =
      (Inl ''SQLITE_CONSTRAINT: UNIQUE constraint failed: books.isbn'', db)"
    using assms(3) by (simp add: createBook_def db_run_insert_def)
  then show ?thesis
    using assms(1,2) includes_unique_message by (simp add: post_book_def Let_def)
qed

section \<open>Validation and the mapping of store failures\<close>

text \<open>
  C1. A create or update request that passes validation and whose data-access call
  rejects is answered by the message of the error alone: 400 with
  \<open>{success: false, message: "ISBN already exists"}\<close> when the message contains
  \<open>UNIQUE constraint failed\<close>, otherwise 500 with the handler's generic message and the
  raw error text.
\<close>

theorem store_failure_mapping:
  assumes "truthy (title (body req))" and "truthy (author (body req))"
  shows "(fst (createBook e db (pick_fields (body req))) = Inl err \<longrightarrow>
            fst (post_book e db req) =
              (if includes_str err ''UNIQUE constraint failed''
               then failure 400 ''ISBN already exists'' None
               else failure 500 ''Error creating book'' (Some err))) \<and>
         (fst (updateBook e db (IdText (params_id req)) (pick_fields (body req))) = Inl err \<longrightarrow>
            fst (put_book e db req) =
              (if includes_str err ''UNIQUE constraint failed''
               then failure 400 ''ISBN already exists'' None
               else failure 500 ''Error updating book'' (Some err)))"
  using assms
  by (auto simp: post_book_def put_book_def Let_def split: prod.splits sum.splits option.splits)

theorem store_failure_mapping_witness:
  "truthy (title (body (request_of ''1'' gatsby))) \<and>
   truthy (author (body (request_of ''1'' gatsby))) \<and>
   fst (createBook (quiet 200000) one_book_db gatsby) =
     Inl ''SQLITE_CONSTRAINT: UNIQUE constraint failed: books.isbn'' \<and>
   fst (post_book (quiet 200000) one_book_db (request_of ''1'' gatsby)) =
     failure 400 ''ISBN already exists'' None \<and>
   fst (put_book \<lparr>now = 200000, fault1 = Some ''SQLITE_BUSY: database is locked'', fault2 = None\<rparr>
          one_book_db (request_of ''1'' orwell)) =
     failure 500 ''Error updating book'' (Some ''SQLITE_BUSY: database is locked'')"
proof -
  have t: "truthy (title (body (request_of ''1'' gatsby)))"
    and a: "truthy (author (body (request_of ''1'' gatsby)))"
    by (simp_all add: truthy_def request_of_def gatsby_def)
  have t': "truthy (title (body (request_of ''1'' orwell)))"
    and a': "truthy (author (body (request_of ''1'' orwell)))"
    by (simp_all add: truthy_def request_of_def orwell_def)
  have c: "fst (createBook (quiet 200000) one_book_db (pick_fields (body (request_of ''1'' gatsby)))) =
        Inl ''SQLITE_CONSTRAINT: UNIQUE constraint failed: books.isbn''"
    by (simp add: one_book_db_eq createBook_def db_run_insert_def sql_insert_def quiet_def current_timestamp_def
        gatsby_def)
  have u: "fst (updateBook \<lparr>now = 200000, fault1 = Some ''SQLITE_BUSY: database is locked'', fault2 = None\<rparr>
          one_book_db (IdText (params_id (request_of ''1'' orwell)))
          (pick_fields (body (request_of ''1'' orwell)))) = Inl ''SQLITE_BUSY: database is locked''"
    by (simp add: updateBook_def db_run_update_def)
  from store_failure_mapping [OF t a, of "quiet 200000" one_book_db] c
    store_failure_mapping [OF t' a', of _ _ "''SQLITE_BUSY: database is locked''"] u t a
  show ?thesis by simp
qed

text \<open>
  C2. A create or update request whose \<open>title\<close> or \<open>author\<close> is missing or empty is
  answered 400 \<open>Title and author are required\<close>; the answer does not depend on the
  store (whatever its faults), and the table is left as it was.
\<close>

theorem missing_title_or_author_rejected:
  assumes "\<not> truthy (title (body req)) \<or> \<not> truthy (author (body req))"
  shows "post_book e db req = (failure 400 ''Title and author are required'' None, db) \<and>
         put_book e db req = (failure 400 ''Title and author are required'' None, db)"
  using assms by (auto simp: post_book_def put_book_def Let_def)

theorem missing_title_or_author_rejected_witness:
  "\<not> truthy (title (body (request_of ''1'' (orwell\<lparr>title := None\<rparr>)))) \<and>
   \<not> truthy (author (body (request_of ''1'' (orwell\<lparr>author := Some []\<rparr>)))) \<and>
   post_book (quiet 200000) one_book_db (request_of ''1'' (orwell\<lparr>title := None\<rparr>)) =
     (failure 400 ''Title and author are required'' None, one_book_db) \<and>
   put_book (quiet 200000) one_book_db (request_of ''1'' (orwell\<lparr>author := Some []\<rparr>)) =
     (failure 400 ''Title and author are required'' None, one_book_db)"
proof -
  have t: "\<not> truthy (title (body (request_of ''1'' (orwell\<lparr>title := None\<rparr>))))"
    by (simp add: truthy_def request_of_def)
  have a: "\<not> truthy (author (body (request_of ''1'' (orwell\<lparr>author := Some []\<rparr>))))"
    by (simp add: truthy_def request_of_def)
  from missing_title_or_author_rejected [OF disjI1 [OF t], of "quiet 200000" one_book_db]
    missing_title_or_author_rejected [OF disjI2 [OF a], of "quiet 200000" one_book_db] t a
  show ?thesis by simp
qed

section \<open>Facts about the store's statements\<close>

lemma select_None_iff: "sql_select_by_id db i = None \<longleftrightarrow> filter (id_matches (numeric db) i) (rows db) = []"
  by (auto simp: sql_select_by_id_def find_None_iff filter_empty_conv)

lemma select_Some_mem: "sql_select_by_id db i = Some b \<Longrightarrow> b \<in> set (rows db) \<and> id_matches (numeric db) i b"
  by (auto simp: sql_select_by_id_def find_Some_iff)

lemma select_after_delete: "sql_select_by_id (sql_delete db i) i = None"
  by (simp add: sql_select_by_id_def sql_delete_def find_None_iff)

lemma never_created_select:
  "keys_ok db \<Longrightarrow> never_created db i \<Longrightarrow> sql_select_by_id db i = None"
  by (auto simp: keys_ok_def never_created_def sql_select_by_id_def find_None_iff id_matches_def
      split: option.splits)

lemma keys_ok_empty: "keys_ok empty_db"
  by (simp add: keys_ok_def empty_db_def)

lemma keys_ok_insert: "keys_ok db \<Longrightarrow> sql_insert t db d = Inr (db', n) \<Longrightarrow> keys_ok db'"
proof -
  assume k: "keys_ok db" and i: "sql_insert t db d = Inr (db', n)"
  from i have r: "rows db' = rows db @ [\<lparr>title = title d, author = author d, isbn = isbn d,
                 published_year = published_year d, genre = genre d,
                 description = description d,
                 book_id = seq db + 1, created_at = t, updated_at = t\<rparr>]"
    and s: "seq db' = seq db + 1"
    by (auto simp: sql_insert_def Let_def split: if_splits)
  from k have "\<forall>r \<in> set (rows db). book_id r < seq db + 1"
    by (auto simp: keys_ok_def)
  then have "seq db + 1 \<notin> book_id ` set (rows db)"
    by auto
  moreover have "\<forall>r \<in> set (rows db). 0 < book_id r \<and> book_id r \<le> seq db + 1"
    using k by (auto simp: keys_ok_def)
  moreover have "0 \<le> seq db + 1"
    using k by (simp add: keys_ok_def)
  ultimately show "keys_ok db'"
    using k unfolding keys_ok_def r s by simp
qed

lemma book_id_set_fields [simp]: "book_id (set_fields t d r) = book_id r"
  by (simp add: set_fields_def)

lemma created_at_set_fields [simp]: "created_at (set_fields t d r) = created_at r"
  by (simp add: set_fields_def)

lemma map_ids_update:
  "map book_id (map (\<lambda>r. if id_matches num i r then set_fields t d r else r) xs) = map book_id xs"
  by (induction xs) auto

lemma keys_ok_update: "keys_ok db \<Longrightarrow> sql_update t db d i = Inr (db', n) \<Longrightarrow> keys_ok db'"
  by (auto simp: keys_ok_def sql_update_def Let_def map_ids_update simp del: map_map split: if_splits)

lemma keys_ok_delete: "keys_ok db \<Longrightarrow> keys_ok (sql_delete db i)"
  by (auto simp: keys_ok_def sql_delete_def distinct_map_filter)

lemma find_append_list:
  "find P (xs @ ys) = (case find P xs of None \<Rightarrow> find P ys | Some x \<Rightarrow> Some x)"
  by (induction xs) auto

lemma insert_select_new:
  assumes "keys_ok db" and "sql_insert t db d = Inr (db', n)"
  shows "n = seq db + 1 \<and>
         sql_select_by_id db' (IdNum n) =
           Some \<lparr>title = title d, author = author d, isbn = isbn d,
                 published_year = published_year d, genre = genre d,
                 description = description d,
                 book_id = seq db + 1, created_at = t, updated_at = t\<rparr>"
proof -
  have "\<forall>r \<in> set (rows db). book_id r \<noteq> seq db + 1"
    using assms(1) by (fastforce simp: keys_ok_def)
  then have "find (id_matches (numeric db) (IdNum (seq db + 1))) (rows db) = None"
    by (auto simp: find_None_iff id_matches_def)
  then show ?thesis using assms(2)
    by (auto simp: sql_insert_def Let_def sql_select_by_id_def id_matches_def find_append_list
        split: if_splits)
qed

lemma select_existing:
  "keys_ok db \<Longrightarrow> b \<in> set (rows db) \<Longrightarrow> id_key (numeric db) i = Some (book_id b) \<Longrightarrow>
   sql_select_by_id db i = Some b"
proof -
  assume k: "keys_ok db" and b: "b \<in> set (rows db)" and i: "id_key (numeric db) i = Some (book_id b)"
  have d: "distinct (map book_id (rows db))" using k by (simp add: keys_ok_def)
  obtain c where c: "find (id_matches (numeric db) i) (rows db) = Some c"
    using b i by (cases "find (id_matches (numeric db) i) (rows db)") (auto simp: find_None_iff id_matches_def)
  then have "c \<in> set (rows db)" and "book_id c = book_id b"
    using i by (auto simp: find_Some_iff id_matches_def)
  with d b have "c = b"
    by (meson distinct_map inj_onD)
  with c show ?thesis by (simp add: sql_select_by_id_def)
qed

lemma keys_ok_preserved:
  assumes "keys_ok db"
  shows "keys_ok (snd (createBook e db x))"
    and "keys_ok (snd (updateBook e db i d))"
    and "keys_ok (snd (deleteBook e db i))"
    and "keys_ok (snd (post_book e db req))"
    and "keys_ok (snd (put_book e db req))"
    and "keys_ok (snd (delete_book e db req))"
proof -
  show c: "keys_ok (snd (createBook e db x))" for x
    using assms keys_ok_insert [OF assms]
    by (auto simp: createBook_def db_run_insert_def db_get_def
        split: sum.splits option.splits prod.splits)
  show u: "keys_ok (snd (updateBook e db i d))" for i d
    using assms keys_ok_update [OF assms]
    by (auto simp: updateBook_def db_run_update_def db_get_def
        split: sum.splits option.splits prod.splits)
  show d: "keys_ok (snd (deleteBook e db i))" for i
    using assms keys_ok_delete [OF assms]
    by (auto simp: deleteBook_def db_run_delete_def db_get_def
        split: sum.splits option.splits prod.splits)
  show "keys_ok (snd (post_book e db req))"
    using assms c [of "pick_fields (body req)"]
    by (auto simp: post_book_def Let_def split: sum.splits prod.splits)
  show "keys_ok (snd (put_book e db req))"
    using assms u [of "IdText (params_id req)" "pick_fields (body req)"]
    by (auto simp: put_book_def Let_def split: sum.splits prod.splits option.splits)
  show "keys_ok (snd (delete_book e db req))"
    using d [of "IdText (params_id req)"]
    by (auto simp: delete_book_def split: sum.splits prod.splits option.splits)
qed

section \<open>Delete\<close>

text \<open>
  C3. When the store answers, \<open>deleteBook\<close> on an id that selects a row returns that
  row, a row of the table as it was before the call (the handler sends it as
  \<open>data.deletedBook\<close> with status 200), and afterwards \<open>getBookById\<close> on the same id
  finds nothing (404 from the handler); on an id that selects no row it resolves to
  nothing, the handler answers 404 \<open>Book not found\<close>, and the table is unchanged.
\<close>

theorem delete_returns_snapshot:
  assumes "fault1 e = None" and "fault2 e = None" and "fault1 e' = None"
  shows "(sql_select_by_id db i = Some b \<longrightarrow>
            b \<in> set (rows db) \<and>
            deleteBook e db i = (Inr (Some b), sql_delete db i) \<and>
            getBookById e' (sql_delete db i) i = Inr None) \<and>
         (sql_select_by_id db i = None \<longrightarrow> deleteBook e db i = (Inr None, db)) \<and>
         (sql_select_by_id db (IdText (params_id req)) = Some b \<longrightarrow>
            delete_book e db req =
              (\<lparr>status = 200, success = True, message = Some ''Book deleted successfully'',
                data = Some (DeletedBook b), total_field = None, error = None\<rparr>,
               sql_delete db (IdText (params_id req))) \<and>
            get_book e' (snd (delete_book e db req)) req = failure 404 ''Book not found'' None) \<and>
         (sql_select_by_id db (IdText (params_id req)) = None \<longrightarrow>
            delete_book e db req = (failure 404 ''Book not found'' None, db))"
  using assms
  by (auto simp: deleteBook_def delete_book_def getBookById_def get_book_def db_get_def
      db_run_delete_def select_after_delete dest: select_Some_mem)

theorem delete_returns_snapshot_witness:
  "fault1 (quiet 200000) = None \<and> fault2 (quiet 200000) = None \<and> fault1 (quiet 300000) = None \<and>
   sql_select_by_id one_book_db (IdText ''1'') = Some gatsby_row \<and>
   deleteBook (quiet 200000) one_book_db (IdText ''1'') =
     (Inr (Some gatsby_row), \<lparr>rows = [], seq = 1, numeric = int_of_text\<rparr>) \<and>
   getBookById (quiet 300000) \<lparr>rows = [], seq = 1, numeric = int_of_text\<rparr> (IdText ''1'') = Inr None \<and>
   sql_select_by_id one_book_db (IdText ''99999'') = None \<and>
   delete_book (quiet 200000) one_book_db (request_of ''99999'' gatsby) =
     (failure 404 ''Book not found'' None, one_book_db)"
proof -
  have f: "fault1 (quiet 200000) = None" "fault2 (quiet 200000) = None" "fault1 (quiet 300000) = None"
    by (simp_all add: quiet_def current_timestamp_def)
  have s: "sql_select_by_id one_book_db (IdText ''1'') = Some gatsby_row"
    by (simp add: one_book_db_eq sql_select_by_id_def id_matches_def int_of_text_examples)
  have n: "sql_select_by_id one_book_db (IdText (params_id (request_of ''99999'' gatsby))) = None"
    by (simp add: one_book_db_eq sql_select_by_id_def id_matches_def int_of_text_examples
        request_of_def)
  have d: "sql_delete one_book_db (IdText ''1'') = \<lparr>rows = [], seq = 1, numeric = int_of_text\<rparr>"
    by (simp add: one_book_db_eq sql_delete_def id_matches_def int_of_text_examples)
  from delete_returns_snapshot [OF f, of one_book_db "IdText ''1''" gatsby_row
      "request_of ''99999'' gatsby"] s n d f
  show ?thesis by (simp add: request_of_def)
qed

section \<open>Update of a missing id\<close>

text \<open>
  C6. A valid update request on an id that selects no row leaves the table exactly as it
  was, and when the store answers the data-access layer resolves to nothing and the
  handler answers 404 \<open>Book not found\<close>.
\<close>

theorem update_missing_id_not_found:
  assumes "truthy (title (body req))" and "truthy (author (body req))"
    and "sql_select_by_id db (IdText (params_id req)) = None"
  shows "snd (put_book e db req) = db \<and>
         (fault1 e = None \<longrightarrow>
            updateBook e db (IdText (params_id req)) (pick_fields (body req)) = (Inr None, db) \<and>
            fst (put_book e db req) = failure 404 ''Book not found'' None)"
proof -
  have "filter (id_matches (numeric db) (IdText (params_id req))) (rows db) = []"
    using assms(3) by (simp add: select_None_iff)
  then have u: "sql_update t db d (IdText (params_id req)) = Inr (db, 0)" for t d
    by (simp add: sql_update_def)
  show ?thesis using assms(1,2)
    by (cases "fault1 e") (simp_all add: put_book_def updateBook_def db_run_update_def u Let_def)
qed

theorem update_missing_id_not_found_witness:
  "truthy (title (body (request_of ''99999'' orwell))) \<and>
   truthy (author (body (request_of ''99999'' orwell))) \<and>
   sql_select_by_id one_book_db (IdText (params_id (request_of ''99999'' orwell))) = None \<and>
   put_book (quiet 200000) one_book_db (request_of ''99999'' orwell) =
     (failure 404 ''Book not found'' None, one_book_db)"
proof -
  have t: "truthy (title (body (request_of ''99999'' orwell)))"
    and a: "truthy (author (body (request_of ''99999'' orwell)))"
    by (simp_all add: truthy_def request_of_def orwell_def)
  have n: "sql_select_by_id one_book_db (IdText (params_id (request_of ''99999'' orwell))) = None"
    by (simp add: one_book_db_eq sql_select_by_id_def id_matches_def int_of_text_examples
        request_of_def)
  have f: "fault1 (quiet 200000) = None" by (simp add: quiet_def current_timestamp_def)
  from update_missing_id_not_found [OF t a n, of "quiet 200000"] f t a n
  show ?thesis by (simp add: prod_eq_iff)
qed

section \<open>Get by an id that was never created\<close>

text \<open>
  C9. For a path value that the counter never gave out as an id (a value that is no
  number, or a number outside \<open>1 .. seq\<close>), when the store answers, \<open>getBookById\<close>
  resolves to nothing and the handler answers 404 \<open>Book not found\<close>, not 500.
\<close>

theorem get_unknown_id_not_found:
  assumes "keys_ok db" and "never_created db (IdText (params_id req))" and "fault1 e = None"
  shows "getBookById e db (IdText (params_id req)) = Inr None \<and>
         get_book e db req = failure 404 ''Book not found'' None"
  using never_created_select [OF assms(1,2)] assms(3)
  by (simp add: getBookById_def get_book_def db_get_def)

theorem get_unknown_id_not_found_witness:
  "keys_ok one_book_db \<and>
   never_created one_book_db (IdText (params_id (request_of ''invalid-id'' gatsby))) \<and>
   never_created one_book_db (IdText (params_id (request_of ''99999'' gatsby))) \<and>
   fault1 (quiet 200000) = None \<and>
   get_book (quiet 200000) one_book_db (request_of ''invalid-id'' gatsby) =
     failure 404 ''Book not found'' None \<and>
   get_book (quiet 200000) one_book_db (request_of ''99999'' gatsby) =
     failure 404 ''Book not found'' None"
proof -
  have n1: "never_created one_book_db (IdText (params_id (request_of ''invalid-id'' gatsby)))"
    by (simp add: never_created_def request_of_def int_of_text_examples one_book_db_eq)
  have n2: "never_created one_book_db (IdText (params_id (request_of ''99999'' gatsby)))"
    by (simp add: never_created_def request_of_def int_of_text_examples one_book_db_eq)
  have f: "fault1 (quiet 200000) = None" by (simp add: quiet_def current_timestamp_def)
  from get_unknown_id_not_found [OF keys_ok_one_book_db n1 f]
    get_unknown_id_not_found [OF keys_ok_one_book_db n2 f] n1 n2 f keys_ok_one_book_db
  show ?thesis by simp
qed

section \<open>Create, then get\<close>



lemma create_succeeds:
  assumes "keys_ok db" and "fault1 e = None" and "fault2 e = None"
    and "title x \<noteq> None" and "author x \<noteq> None"
    and "isbn x = None \<or> (\<forall>r \<in> set (rows db). isbn r \<noteq> isbn x)"
  shows "\<exists>r db'. createBook e db x = (Inr (Some r), db') \<and> keys_ok db'"
proof -
  obtain db' n where i: "sql_insert (current_timestamp e) db x = Inr (db', n)"
    using assms(4,5,6) by (auto simp: sql_insert_def Let_def)
  from insert_select_new [OF assms(1) i] keys_ok_insert [OF assms(1) i] i assms(2,3)
  show ?thesis by (auto simp: createBook_def db_run_insert_def db_get_def)
qed

section \<open>Update\<close>

lemma map_matching_row:
  assumes "distinct (map book_id xs)" and "k < length xs"
    and "id_key num i = Some (book_id (xs ! k))"
  shows "map (\<lambda>x. if id_matches num i x then f x else x) xs = xs[k := f (xs ! k)]"
proof (rule nth_equalityI)
  show "length (map (\<lambda>x. if id_matches num i x then f x else x) xs) = length (xs[k := f (xs ! k)])"
    by simp
next
  fix j assume "j < length (map (\<lambda>x. if id_matches num i x then f x else x) xs)"
  then have j: "j < length xs" by simp
  show "map (\<lambda>x. if id_matches num i x then f x else x) xs ! j = xs[k := f (xs ! k)] ! j"
  proof (cases "j = k")
    case True
    with j assms(3) show ?thesis by (simp add: id_matches_def)
  next
    case False
    have "j < length (map book_id xs)" and "k < length (map book_id xs)"
      using j assms(2) by simp_all
    with assms(1) False have "map book_id xs ! j \<noteq> map book_id xs ! k"
      by (simp only: nth_eq_iff_index_eq not_False_eq_True)
    then have "\<not> id_matches num i (xs ! j)"
      using assms(2,3) j by (simp add: id_matches_def)
    with j False show ?thesis by simp
  qed
qed

lemma updateBook_success:
  assumes "keys_ok db" and "updateBook e db i d = (Inr (Some r'), db')"
  shows "\<exists>r k. sql_select_by_id db i = Some r \<and> k < length (rows db) \<and> rows db ! k = r \<and>
           r' = set_fields (current_timestamp e) d r \<and> rows db' = (rows db)[k := r'] \<and> seq db' = seq db"
proof -
  from assms(2) obtain n where u: "sql_update (current_timestamp e) db d i = Inr (db', n)"
    and n: "n \<noteq> 0" and g: "sql_select_by_id db' i = Some r'"
    by (auto simp: updateBook_def db_run_update_def db_get_def
        split: sum.splits option.splits prod.splits if_splits)
  have hits: "filter (id_matches (numeric db) i) (rows db) \<noteq> []"
    using u n by (auto simp: sql_update_def Let_def split: if_splits)
  then obtain r where r: "sql_select_by_id db i = Some r"
    by (cases "sql_select_by_id db i") (auto simp: select_None_iff)
  then have rm: "r \<in> set (rows db)" and ri: "id_key (numeric db) i = Some (book_id r)"
    by (auto dest: select_Some_mem simp: id_matches_def)
  from rm obtain k where k: "k < length (rows db)" "rows db ! k = r"
    by (auto simp: in_set_conv_nth)
  have d: "distinct (map book_id (rows db))" using assms(1) by (simp add: keys_ok_def)
  have rows': "rows db' = (rows db)[k := set_fields (current_timestamp e) d r]" and s: "seq db' = seq db"
    and nm: "numeric db' = numeric db"
    using u hits map_matching_row [OF d k(1), of "numeric db" i "set_fields (current_timestamp e) d"] k(2) ri
    by (auto simp: sql_update_def Let_def split: if_splits)
  have "set_fields (current_timestamp e) d r \<in> set (rows db')"
    using k(1) by (simp add: rows' set_update_memI)
  moreover have "id_key (numeric db') i = Some (book_id (set_fields (current_timestamp e) d r))"
    using ri nm by simp
  ultimately have "sql_select_by_id db' i = Some (set_fields (current_timestamp e) d r)"
    using keys_ok_update [OF assms(1) u] by (rule select_existing [rotated])
  with g have "r' = set_fields (current_timestamp e) d r" by simp
  with r k rows' s show ?thesis by blast
qed

text \<open>
  C4. When \<open>updateBook\<close> resolves to a record \<open>r'\<close>, the id selected a row \<open>r\<close> at some
  position of the table; the table afterwards is the table before with \<open>r'\<close> at that
  position and nothing else changed; the six business fields of \<open>r'\<close> are the supplied
  ones, \<open>updated_at\<close> is the \<open>CURRENT_TIMESTAMP\<close> of the update, and \<open>id\<close> and \<open>created_at\<close>
  are those of \<open>r\<close>.
\<close>

theorem update_overwrites_business_fields_only:
  assumes "keys_ok db" and "updateBook e db i d = (Inr (Some r'), db')"
  shows "\<exists>r k. sql_select_by_id db i = Some r \<and> k < length (rows db) \<and> rows db ! k = r \<and>
           rows db' = (rows db)[k := r'] \<and> seq db' = seq db \<and>
           title r' = title d \<and> author r' = author d \<and> isbn r' = isbn d \<and>
           published_year r' = published_year d \<and> genre r' = genre d \<and>
           description r' = description d \<and> updated_at r' = current_timestamp e \<and>
           book_id r' = book_id r \<and> created_at r' = created_at r"
proof -
  from updateBook_success [OF assms] obtain r k where
    "sql_select_by_id db i = Some r" "k < length (rows db)" "rows db ! k = r"
    "r' = set_fields (current_timestamp e) d r" "rows db' = (rows db)[k := r']" "seq db' = seq db"
    by blast
  then show ?thesis by (auto simp: set_fields_def)
qed

theorem update_overwrites_business_fields_only_witness:
  "keys_ok two_book_db \<and>
   updateBook (quiet 300000) two_book_db (IdText ''2'') orwell =
     (Inr (Some updated_row), \<lparr>rows = [gatsby_row, updated_row], seq = 2, numeric = int_of_text\<rparr>) \<and>
   (\<exists>r k. sql_select_by_id two_book_db (IdText ''2'') = Some r \<and>
      k < length (rows two_book_db) \<and> rows two_book_db ! k = r \<and>
      [gatsby_row, updated_row] = (rows two_book_db)[k := updated_row] \<and>
      title updated_row = title orwell \<and> updated_at updated_row = 300 \<and>
      book_id updated_row = book_id r \<and> created_at updated_row = created_at r)"
  using update_overwrites_business_fields_only [OF keys_ok_two_book_db update_second_row]
    keys_ok_two_book_db update_second_row
  by (auto simp: quiet_def current_timestamp_def)

section \<open>Failures of the data-access layer at the handler boundary\<close>

text \<open>
  C7. Every handler is a total function into responses, and whenever its data-access
  call rejects, the response is a JSON error: 500 with the raw error text from the three
  handlers without a conflict branch, and 400 or 500 with \<open>success: false\<close> from create
  and update.
\<close>

theorem store_failures_become_responses:
  "(getAllBooks e db = Inl err \<longrightarrow>
      get_books e db = failure 500 ''Error retrieving books'' (Some err)) \<and>
   (getBookById e db (IdText (params_id req)) = Inl err \<longrightarrow>
      get_book e db req = failure 500 ''Error retrieving book'' (Some err)) \<and>
   (fst (createBook e db (pick_fields (body req))) = Inl err \<longrightarrow>
      status (fst (post_book e db req)) \<in> {400, 500} \<and> \<not> success (fst (post_book e db req))) \<and>
   (fst (updateBook e db (IdText (params_id req)) (pick_fields (body req))) = Inl err \<longrightarrow>
      status (fst (put_book e db req)) \<in> {400, 500} \<and> \<not> success (fst (put_book e db req))) \<and>
   (fst (deleteBook e db (IdText (params_id req))) = Inl err \<longrightarrow>
      fst (delete_book e db req) = failure 500 ''Error deleting book'' (Some err))"
  by (auto simp: get_books_def get_book_def post_book_def put_book_def delete_book_def
      failure_def Let_def split: prod.splits sum.splits option.splits)

theorem store_failures_become_responses_witness:
  "getAllBooks broken one_book_db = Inl ''SQLITE_IOERR: disk I/O error'' \<and>
   get_books broken one_book_db =
     failure 500 ''Error retrieving books'' (Some ''SQLITE_IOERR: disk I/O error'') \<and>
   getBookById broken one_book_db (IdText ''1'') = Inl ''SQLITE_IOERR: disk I/O error'' \<and>
   get_book broken one_book_db (request_of ''1'' orwell) =
     failure 500 ''Error retrieving book'' (Some ''SQLITE_IOERR: disk I/O error'') \<and>
   fst (createBook broken one_book_db orwell) = Inl ''SQLITE_IOERR: disk I/O error'' \<and>
   status (fst (post_book broken one_book_db (request_of ''1'' orwell))) \<in> {400, 500} \<and>
   fst (updateBook broken one_book_db (IdText ''1'') orwell) =
     Inl ''SQLITE_IOERR: disk I/O error'' \<and>
   \<not> success (fst (put_book broken one_book_db (request_of ''1'' orwell))) \<and>
   fst (deleteBook broken one_book_db (IdText ''1'')) = Inl ''SQLITE_IOERR: disk I/O error'' \<and>
   fst (delete_book broken one_book_db (request_of ''1'' orwell)) =
     failure 500 ''Error deleting book'' (Some ''SQLITE_IOERR: disk I/O error'')"
proof -
  have a: "getAllBooks broken one_book_db = Inl ''SQLITE_IOERR: disk I/O error''"
    by (simp add: getAllBooks_def db_all_def broken_def)
  have g: "getBookById broken one_book_db (IdText ''1'') = Inl ''SQLITE_IOERR: disk I/O error''"
    by (simp add: getBookById_def db_get_def broken_def)
  have c: "fst (createBook broken one_book_db orwell) = Inl ''SQLITE_IOERR: disk I/O error''"
    by (simp add: createBook_def db_run_insert_def broken_def)
  have u: "fst (updateBook broken one_book_db (IdText ''1'') orwell) =
      Inl ''SQLITE_IOERR: disk I/O error''"
    by (simp add: updateBook_def db_run_update_def broken_def)
  have d: "fst (deleteBook broken one_book_db (IdText ''1'')) =
      Inl ''SQLITE_IOERR: disk I/O error''"
    by (simp add: deleteBook_def db_get_def broken_def)
  have p: "params_id (request_of ''1'' orwell) = ''1''"
    by (simp add: request_of_def)
  from store_failures_become_responses [of broken one_book_db "''SQLITE_IOERR: disk I/O error''"
      "request_of ''1'' orwell"] a g c u d
  show ?thesis by (simp add: p)
qed

section \<open>Body fields outside the six\<close>

lemma createBook_success:
  assumes "keys_ok db" and "createBook e db x = (Inr (Some r), db')"
  shows "book_id r = seq db + 1 \<and> created_at r = current_timestamp e \<and>
    updated_at r = current_timestamp e"
proof -
  from assms(2) obtain n where i: "sql_insert (current_timestamp e) db x = Inr (db', n)"
    and g: "sql_select_by_id db' (IdNum n) = Some r"
    by (auto simp: createBook_def db_run_insert_def db_get_def
        split: sum.splits option.splits prod.splits)
  from insert_select_new [OF assms(1) i] g show ?thesis by auto
qed

text \<open>
  C10. The outcome of a create or update request (the response and the table) depends on
  the body only through its six business fields: two requests that agree on them (and on
  the path id) have the same outcome, whatever else their bodies carry. The id and the
  timestamps of the record that is sent back come from the store: for create, the next
  value of the counter and \<open>CURRENT_TIMESTAMP\<close>; for update, the id and \<open>created_at\<close> of
  the row that was there and \<open>CURRENT_TIMESTAMP\<close> as \<open>updated_at\<close>.
\<close>

theorem other_body_fields_ignored:
  assumes "pick_fields (body req') = pick_fields (body req)"
    and "params_id req' = params_id req"
  shows "post_book e db req' = post_book e db req \<and>
         put_book e db req' = put_book e db req \<and>
         (keys_ok db \<longrightarrow>
            (\<forall>r. data (fst (post_book e db req')) = Some (Book r) \<longrightarrow>
               book_id r = seq db + 1 \<and> created_at r = current_timestamp e \<and>
                 updated_at r = current_timestamp e) \<and>
            (\<forall>r'. data (fst (put_book e db req')) = Some (Book r') \<longrightarrow>
               (\<exists>r. sql_select_by_id db (IdText (params_id req')) = Some r \<and>
                    book_id r' = book_id r \<and> created_at r' = created_at r \<and>
                    updated_at r' = current_timestamp e)))"
proof -
  from assms(1) have t: "title (body req') = title (body req)"
    and a: "author (body req') = author (body req)"
    by (simp_all add: pick_fields_def)
  have post: "post_book e db req' = post_book e db req"
    by (simp add: post_book_def Let_def t a assms(1))
  have put: "put_book e db req' = put_book e db req"
    by (simp add: put_book_def Let_def t a assms)
  have created: "book_id r = seq db + 1 \<and> created_at r = current_timestamp e \<and>
    updated_at r = current_timestamp e"
    if "keys_ok db" and "data (fst (post_book e db req')) = Some (Book r)" for r
  proof -
    from that(2) obtain db' where
      "createBook e db (pick_fields (body req')) = (Inr (Some r), db')"
      by (auto simp: post_book_def Let_def failure_def
          split: if_splits prod.splits sum.splits option.splits)
    from createBook_success [OF that(1) this] show ?thesis .
  qed
  have updated: "\<exists>r. sql_select_by_id db (IdText (params_id req')) = Some r \<and>
      book_id r' = book_id r \<and> created_at r' = created_at r \<and> updated_at r' = current_timestamp e"
    if "keys_ok db" and "data (fst (put_book e db req')) = Some (Book r')" for r'
  proof -
    from that(2) obtain db' where
      "updateBook e db (IdText (params_id req')) (pick_fields (body req')) = (Inr (Some r'), db')"
      by (auto simp: put_book_def Let_def failure_def
          split: if_splits prod.splits sum.splits option.splits)
    from updateBook_success [OF that(1) this] show ?thesis
      by (auto simp: set_fields_def)
  qed
  from post put created updated show ?thesis by blast
qed

theorem other_body_fields_ignored_witness:
  "pick_fields (body (meddling_request_of ''2'' minimal)) =
     pick_fields (body (request_of ''2'' minimal)) \<and>
   params_id (meddling_request_of ''2'' minimal) = params_id (request_of ''2'' minimal) \<and>
   other_fields (body (meddling_request_of ''2'' minimal)) ''id'' = Some (JNum 999) \<and>
   keys_ok one_book_db \<and>
   post_book (quiet 200000) one_book_db (meddling_request_of ''2'' minimal) =
     post_book (quiet 200000) one_book_db (request_of ''2'' minimal) \<and>
   post_book (quiet 200000) one_book_db (meddling_request_of ''2'' minimal) =
     (\<lparr>status = 201, success = True, message = Some ''Book created successfully'',
       data = Some (Book minimal_row), total_field = None, error = None\<rparr>,
      \<lparr>rows = [gatsby_row, minimal_row], seq = 2, numeric = int_of_text\<rparr>) \<and>
   book_id minimal_row = seq one_book_db + 1 \<and> created_at minimal_row = current_timestamp (quiet 200000)"
proof -
  have f: "pick_fields (body (meddling_request_of ''2'' minimal)) =
      pick_fields (body (request_of ''2'' minimal))"
    by (simp add: pick_fields_def meddling_request_of_def request_of_def)
  have i: "params_id (meddling_request_of ''2'' minimal) = params_id (request_of ''2'' minimal)"
    by (simp add: meddling_request_of_def request_of_def)
  have o: "other_fields (body (meddling_request_of ''2'' minimal)) ''id'' = Some (JNum 999)"
    by (simp add: meddling_request_of_def)
  have p: "post_book (quiet 200000) one_book_db (meddling_request_of ''2'' minimal) =
     (\<lparr>status = 201, success = True, message = Some ''Book created successfully'',
       data = Some (Book minimal_row), total_field = None, error = None\<rparr>,
      \<lparr>rows = [gatsby_row, minimal_row], seq = 2, numeric = int_of_text\<rparr>)"
    by (simp add: post_book_def Let_def f create_minimal)
      (simp add: meddling_request_of_def minimal_def truthy_def)
  from other_body_fields_ignored [OF f i, of "quiet 200000" one_book_db] f i o p keys_ok_one_book_db
  show ?thesis by simp
qed

section \<open>Listing\<close>

lemma mset_select_all: "mset (sql_select_all db) = mset (rows db)"
  by (simp add: sql_select_all_def)

lemma sorted_select_all:
  "sorted_wrt (\<lambda>a b. created_at b \<le> created_at a) (sql_select_all db)"
proof -
  have "sorted (map (\<lambda>r. - int (created_at r)) (sql_select_all db))"
    unfolding sql_select_all_def by (rule sorted_sort_key)
  then show ?thesis by (simp add: sorted_map)
qed

lemma foldr_insort_above:
  assumes "f b < f a" and "\<forall>x \<in> set xs. f a < f x"
  shows "foldr (insort_key f) xs (b # a # ys) = b # a # foldr (insort_key f) xs ys"
  using assms(2)
proof (induction xs)
  case Nil
  show ?case by simp
next
  case (Cons x xs)
  then have "\<not> f x \<le> f a" and "\<not> f x \<le> f b" using assms(1) by auto
  with Cons show ?case by simp
qed

lemma sort_key_two_newest:
  fixes f :: "'a \<Rightarrow> int"
  assumes "f b < f a" and "\<forall>x \<in> set xs. f a < f x"
  shows "sort_key f (xs @ [a, b]) = b # a # sort_key f xs"
proof -
  have "insort_key f a [b] = [b, a]" using assms(1) by simp
  then have "sort_key f (xs @ [a, b]) = foldr (insort_key f) xs [b, a]"
    by (simp add: sort_key_def)
  also have "\<dots> = b # a # foldr (insort_key f) xs []"
    using assms by (rule foldr_insort_above)
  finally show ?thesis by (simp add: sort_key_def)
qed

lemma sorted_desc_precedes:
  assumes "sorted_wrt (\<lambda>a b. created_at b \<le> created_at a) bs"
    and "ra \<in> set bs" and "rb \<in> set bs" and "created_at ra < created_at rb"
  shows "\<exists>xs ys zs. bs = xs @ rb # ys @ ra # zs"
proof -
  from assms(2) obtain us vs where bs: "bs = us @ ra # vs"
    by (auto dest: split_list)
  have "\<forall>y \<in> set vs. created_at y \<le> created_at ra"
    using assms(1) by (simp add: bs sorted_wrt_append)
  with assms(4) have "rb \<notin> set vs" by auto
  moreover have "rb \<noteq> ra" using assms(4) by auto
  ultimately have "rb \<in> set us" using assms(3) by (simp add: bs)
  then obtain xs ys where "us = xs @ rb # ys" by (auto dest: split_list)
  with bs show ?thesis by auto
qed

lemma createBook_appends:
  assumes "keys_ok db" and "createBook e db x = (Inr (Some r), db')"
  shows "rows db' = rows db @ [r] \<and> created_at r = current_timestamp e \<and> keys_ok db'"
proof -
  from assms(2) obtain n where i: "sql_insert (current_timestamp e) db x = Inr (db', n)"
    and g: "sql_select_by_id db' (IdNum n) = Some r"
    by (auto simp: createBook_def db_run_insert_def db_get_def
        split: sum.splits option.splits prod.splits)
  from insert_select_new [OF assms(1) i] g
  have r: "r = \<lparr>title = title x, author = author x, isbn = isbn x,
                 published_year = published_year x, genre = genre x,
                 description = description x,
                 book_id = seq db + 1, created_at = current_timestamp e,
                 updated_at = current_timestamp e\<rparr>"
    by simp
  have "rows db' = rows db @ [r]"
    using i unfolding r by (auto simp: sql_insert_def Let_def split: if_splits)
  with keys_ok_insert [OF assms(1) i] show ?thesis by (simp add: r)
qed

text \<open>
  What the listing guarantees. When the store answers, \<open>getAllBooks\<close> resolves to a list
  that holds exactly the rows of the table and is ordered by \<open>created_at\<close>, newest
  first; it is empty when the table is. After a book A was created and then a book B at
  a later second of the clock, B stands before A in the list; and when every row that was
  there before is older than A, the list is B, A, and then those rows.
\<close>

lemma list_newest_first:
  assumes "fault1 e = None"
  shows "getAllBooks e db = Inr (sql_select_all db) \<and>
         mset (sql_select_all db) = mset (rows db) \<and>
         sorted_wrt (\<lambda>a b. created_at b \<le> created_at a) (sql_select_all db) \<and>
         (rows db = [] \<longrightarrow> sql_select_all db = []) \<and>
         (keys_ok db0 \<and> createBook ea db0 a = (Inr (Some ra), db1) \<and>
          createBook eb db1 b = (Inr (Some rb), db) \<and>
          current_timestamp ea < current_timestamp eb \<longrightarrow>
            (\<exists>xs ys zs. sql_select_all db = xs @ rb # ys @ ra # zs) \<and>
            ((\<forall>r \<in> set (rows db0). created_at r < current_timestamp ea) \<longrightarrow>
               sql_select_all db = rb # ra # sql_select_all db0))"
proof -
  have scenario: "(\<exists>xs ys zs. sql_select_all db = xs @ rb # ys @ ra # zs) \<and>
            ((\<forall>r \<in> set (rows db0). created_at r < current_timestamp ea) \<longrightarrow>
               sql_select_all db = rb # ra # sql_select_all db0)"
    if k: "keys_ok db0" and ca: "createBook ea db0 a = (Inr (Some ra), db1)"
      and cb: "createBook eb db1 b = (Inr (Some rb), db)"
      and lt: "current_timestamp ea < current_timestamp eb"
  proof -
    from createBook_appends [OF k ca]
    have r1: "rows db1 = rows db0 @ [ra]" and ta: "created_at ra = current_timestamp ea"
      and k1: "keys_ok db1"
      by simp_all
    from createBook_appends [OF k1 cb]
    have r2: "rows db = rows db1 @ [rb]" and tb: "created_at rb = current_timestamp eb"
      by simp_all
    have rows: "rows db = rows db0 @ [ra, rb]" by (simp add: r1 r2)
    have "ra \<in> set (sql_select_all db)" and "rb \<in> set (sql_select_all db)"
      by (simp_all add: sql_select_all_def rows)
    with sorted_select_all [of db] lt
    have first: "\<exists>xs ys zs. sql_select_all db = xs @ rb # ys @ ra # zs"
      by (intro sorted_desc_precedes) (simp_all add: ta tb)
    have second: "sql_select_all db = rb # ra # sql_select_all db0"
      if "\<forall>r \<in> set (rows db0). created_at r < current_timestamp ea"
      unfolding sql_select_all_def rows
      by (rule sort_key_two_newest) (use that lt in \<open>simp_all add: ta tb\<close>)
    from first second show ?thesis by blast
  qed
  have "getAllBooks e db = Inr (sql_select_all db)"
    using assms by (simp add: getAllBooks_def db_all_def)
  moreover have "rows db = [] \<longrightarrow> sql_select_all db = []"
    by (simp add: sql_select_all_def)
  ultimately show ?thesis
    using mset_select_all [of db] sorted_select_all [of db] scenario by blast
qed

lemma list_newest_first_example:
  "fault1 (quiet 400000) = None \<and> keys_ok one_book_db \<and>
   createBook (quiet 200000) one_book_db minimal = (Inr (Some minimal_row), two_book_db) \<and>
   createBook (quiet 300000) two_book_db orwell = (Inr (Some orwell_row), three_book_db) \<and>
   current_timestamp (quiet 200000) < current_timestamp (quiet 300000) \<and>
   rows one_book_db = [gatsby_row] \<and> created_at gatsby_row < current_timestamp (quiet 200000) \<and>
   getAllBooks (quiet 400000) three_book_db = Inr [orwell_row, minimal_row, gatsby_row] \<and>
   getAllBooks (quiet 400000) empty_db = Inr []"
proof -
  have f: "fault1 (quiet 400000) = None" by (simp add: quiet_def current_timestamp_def)
  have c1: "createBook (quiet 200000) one_book_db minimal = (Inr (Some minimal_row), two_book_db)"
    by (simp add: create_minimal two_book_db_def)
  have lt: "current_timestamp (quiet 200000) < current_timestamp (quiet 300000)"
    by (simp add: quiet_def current_timestamp_def)
  have old: "\<forall>r \<in> set (rows one_book_db). created_at r < current_timestamp (quiet 200000)"
    by (simp add: one_book_db_eq gatsby_row_def quiet_def current_timestamp_def)
  have l1: "sql_select_all one_book_db = [gatsby_row]"
    by (simp add: sql_select_all_def one_book_db_eq)
  have e: "rows empty_db = []" by (simp add: empty_db_def)
  from list_newest_first [OF f, of three_book_db one_book_db "quiet 200000" minimal minimal_row
      two_book_db "quiet 300000" orwell orwell_row]
    list_newest_first [OF f, of empty_db]
    keys_ok_one_book_db c1 create_orwell lt old l1 f e
  show ?thesis by (simp add: one_book_db_eq)
qed

text \<open>
  C5. The order of the listing is that of \<open>created_at\<close>, a time in whole seconds. On the
  empty table, a book A created at 100.1 s and a book B created 100 ms later have the
  same \<open>created_at\<close>, and \<open>getAllBooks\<close> (and with it the list handler) returns A before
  B: the older book first, not \<open>[B, A]\<close>. The tests of the repository expect the most
  recent book first for books created 100 ms apart; their copy of \<open>getAllBooks\<close> orders
  by \<open>id\<close> for that reason.
\<close>

theorem list_same_second_oldest_first:
  "now (quiet 100100) < now (quiet 100200) \<and>
   createBook (quiet 100100) empty_db first_book = (Inr (Some first_row), first_db) \<and>
   createBook (quiet 100200) first_db second_book = (Inr (Some second_row), both_db) \<and>
   created_at first_row = created_at second_row \<and>
   getAllBooks (quiet 100300) both_db = Inr [first_row, second_row] \<and>
   get_books (quiet 100300) both_db =
     \<lparr>status = 200, success = True, message = None,
      data = Some (Books [first_row, second_row]), total_field = Some 2, error = None\<rparr>"
proof -
  have a: "createBook (quiet 100100) empty_db first_book = (Inr (Some first_row), first_db)"
    by (simp add: createBook_def db_run_insert_def db_get_def sql_insert_def
        sql_select_by_id_def id_matches_def quiet_def current_timestamp_def empty_db_def
        first_book_def first_row_def first_db_def Let_def)
  have b: "createBook (quiet 100200) first_db second_book = (Inr (Some second_row), both_db)"
    by (simp add: createBook_def db_run_insert_def db_get_def sql_insert_def
        sql_select_by_id_def id_matches_def quiet_def current_timestamp_def
        second_book_def first_row_def second_row_def first_db_def both_db_def Let_def)
  have l: "getAllBooks (quiet 100300) both_db = Inr [first_row, second_row]"
    by (simp add: getAllBooks_def db_all_def sql_select_all_def quiet_def both_db_def
        first_row_def second_row_def)
  from a b l show ?thesis
    by (simp add: get_books_def quiet_def first_row_def second_row_def)
qed

end
